theory Spec2Isabelle
  imports Main "HOL-Library.Word"
begin

section \<open>Consul service discovery over DNS: the data model\<close>

text \<open>
  The Go package \<^verbatim>\<open>servicediscovery\<close> (file \<^verbatim>\<open>discovery.go\<close>) resolves a service
  name with one SRV query and one A query per SRV target, caching the addresses of the
  targets in a map owned by the resolver.

  Go strings are byte sequences: \<^typ>\<open>string\<close> with one \<^typ>\<open>char\<close> per byte. A Go
  \<^verbatim>\<open>error\<close> value is either built by \<^verbatim>\<open>fmt.Errorf\<close> from a message, or handed over
  by a library call (\<^verbatim>\<open>client.Exchange\<close>, \<^verbatim>\<open>net.SplitHostPort\<close>, \<^verbatim>\<open>net.LookupHost\<close>)
  and passed on as it is. The \<^verbatim>\<open>nil\<close> error is \<^term>\<open>None\<close> of \<open>error option\<close>.
\<close>

datatype error = Errorf string | LibraryError string

text \<open>A run-time panic ends the call without a return value.\<close>

datatype panic = SliceBoundsOutOfRange

datatype 'a outcome = Panics panic | Returns 'a

text \<open>\<^verbatim>\<open>net.IP\<close> is a byte slice; the \<^verbatim>\<open>nil\<close> slice is the empty list.\<close>

type_synonym IP = "8 word list"

text \<open>
  The records of \<^verbatim>\<open>github.com/miekg/dns\<close> the code inspects. The two type assertions
  \<^verbatim>\<open>a.(*dns.SRV)\<close> and \<^verbatim>\<open>a.(*dns.A)\<close> look at the dynamic type of the record, which
  is the constructor here; every other record type is \<open>RR_Other\<close> with its type code.
\<close>

record SRV =
  Priority :: "16 word"
  Weight :: "16 word"
  SRV_Port :: "16 word"
  Target :: string

datatype RR = RR_SRV SRV | RR_A IP | RR_Other "16 word"

record Question =
  Name :: string
  Qtype :: "16 word"

record Msg =
  Rcode :: int
  Questions :: "Question list"
  Answer :: "RR list"

definition TypeA :: "16 word" where
  "TypeA = 1"

definition TypeSRV :: "16 word" where
  "TypeSRV = 33"

definition RcodeSuccess :: int where
  "RcodeSuccess = 0"

text \<open>\<^verbatim>\<open>new(dns.Msg)\<close> and \<^verbatim>\<open>m.SetQuestion(name, qtype)\<close>: a message with one question.\<close>

definition new_Msg :: Msg where
  "new_Msg = \<lparr>Rcode = 0, Questions = [], Answer = []\<rparr>"

definition SetQuestion :: "Msg \<Rightarrow> string \<Rightarrow> 16 word \<Rightarrow> Msg" where
  "SetQuestion m z t = m\<lparr>Questions := [\<lparr>Name = z, Qtype = t\<rparr>]\<rparr>"

text \<open>
  Modelled from the spec: the interface \<^verbatim>\<open>DnsClient\<close> is declared in a file that is not
  part of the sources at hand. Section 6 of the specification gives its one capability,
  \<^verbatim>\<open>exchange(query) -> (response, error)\<close>, which returns either a parsed response or a
  transport-level error. The transport is outside the program, so it has a state of its
  own, of any type \<open>'n\<close>, and an exchange may change it: the same question can be
  answered differently the next time.
\<close>

type_synonym 'n DnsClient = "Msg \<Rightarrow> string \<Rightarrow> 'n \<Rightarrow> (error + Msg) \<times> 'n"

record 'n consulServiceDiscovery =
  dnsServer :: string
  dnsSearch :: string
  client :: "'n DnsClient"
  targetCache :: "string \<rightharpoonup> IP"

record ServiceInstance =
  Ip :: string
  Port :: string

text \<open>
  Everything outside the resolver: the state of the transport, and a log of every
  message handed to \<^verbatim>\<open>client.Exchange\<close> together with the server address, in call
  order. The log is not read by the program; it is what "counting transport
  invocations" looks at.
\<close>

record 'n world =
  net :: 'n
  exchanged :: "(Msg \<times> string) list"

text \<open>
  The library functions the code calls and whose text is not part of this repository
  are parameters: \<^verbatim>\<open>dns.Fqdn\<close>, \<^verbatim>\<open>net.IP.String\<close>, \<^verbatim>\<open>net.SplitHostPort\<close>,
  \<^verbatim>\<open>net.ParseIP\<close> (\<^term>\<open>None\<close> is its \<^verbatim>\<open>nil\<close>), \<^verbatim>\<open>net.LookupHost\<close> and
  \<^verbatim>\<open>net.JoinHostPort\<close>.
\<close>

record lib =
  Fqdn :: "string \<Rightarrow> string"
  IP_String :: "IP \<Rightarrow> string"
  SplitHostPort :: "string \<Rightarrow> error + string \<times> string"
  ParseIP :: "string \<Rightarrow> IP option"
  LookupHost :: "string \<Rightarrow> error + string list"
  JoinHostPort :: "string \<Rightarrow> string \<Rightarrow> string"

section \<open>The operations\<close>

text \<open>\<^verbatim>\<open>fmt.Sprintf("%d", n)\<close> for an unsigned \<open>n\<close>: its decimal digits, most significant first.\<close>

definition digit :: "nat \<Rightarrow> char" where
  "digit d = ''0123456789'' ! d"

fun Sprintf_d :: "nat \<Rightarrow> string" where
  "Sprintf_d n = (if n < 10 then [digit n] else Sprintf_d (n div 10) @ [digit (n mod 10)])"

declare Sprintf_d.simps [simp del]

text \<open>
  The slice expression \<^verbatim>\<open>s[:hi]\<close> on a string: Go panics unless \<open>0 \<le> hi \<le> len(s)\<close>.
\<close>

definition slice_to :: "string \<Rightarrow> int \<Rightarrow> string outcome" where
  "slice_to s hi =
     (if hi < 0 \<or> int (length s) < hi then Panics SliceBoundsOutOfRange
      else Returns (take (nat hi) s))"

text \<open>\<^verbatim>\<open>s.client.Exchange(m, address)\<close>, with the call written to the log.\<close>

definition Exchange ::
  "'n consulServiceDiscovery \<Rightarrow> Msg \<Rightarrow> string \<Rightarrow> 'n world \<Rightarrow> (error + Msg) \<times> 'n world" where
  "Exchange s m address w =
     (case client s m address (net w) of
        (r, n') \<Rightarrow> (r, \<lparr>net = n', exchanged = exchanged w @ [(m, address)]\<rparr>))"

text \<open>
  The loop of \<^verbatim>\<open>resolveTarget\<close> over \<^verbatim>\<open>r.Answer\<close>: the address of the first A record,
  if there is one.
\<close>

fun rangeA :: "RR list \<Rightarrow> IP option" where
  "rangeA [] = None"
| "rangeA (RR_A ip # rest) = Some ip"
| "rangeA (_ # rest) = rangeA rest"

text \<open>
  \<^verbatim>\<open>resolveTarget\<close> returns the pair \<open>(ip, err)\<close> of the Go function, the resolver (its
  cache may have grown) and the world.
\<close>

definition resolveTarget ::
  "lib \<Rightarrow> 'n consulServiceDiscovery \<Rightarrow> 'n world \<Rightarrow> string \<Rightarrow>
     (IP \<times> error option) \<times> 'n consulServiceDiscovery \<times> 'n world" where
  "resolveTarget L s w target =
     (case targetCache s target of
        Some val \<Rightarrow> ((val, None), s, w)
      | None \<Rightarrow>
          (let fqdn = Fqdn L target;
               m = SetQuestion new_Msg fqdn TypeA
           in case Exchange s m (dnsServer s) w of
                (Inl err, w') \<Rightarrow> (([], Some err), s, w')
              | (Inr r, w') \<Rightarrow>
                  if Rcode r \<noteq> RcodeSuccess
                  then (([], Some (Errorf ''Service lookup: Target DNS query did not succeed'')), s, w')
                  else (case rangeA (Answer r) of
                          Some a \<Rightarrow> ((a, None), s\<lparr>targetCache := (targetCache s)(target \<mapsto> a)\<rparr>, w')
                        | None \<Rightarrow>
                            (([], Some (Errorf ''Service lookup: No A entry in DNS response'')), s, w'))))"

text \<open>
  The loop of \<^verbatim>\<open>DiscoverAllServiceInstances\<close> over \<^verbatim>\<open>r.Answer\<close>, with the instances
  collected so far. The slice \<^verbatim>\<open>srv.Target[:len(srv.Target)-1]\<close> can panic.
\<close>

fun rangeSRV ::
  "lib \<Rightarrow> RR list \<Rightarrow> ServiceInstance list \<Rightarrow> 'n consulServiceDiscovery \<Rightarrow> 'n world \<Rightarrow>
     ServiceInstance list outcome \<times> 'n consulServiceDiscovery \<times> 'n world" where
  "rangeSRV L [] instances s w = (Returns instances, s, w)"
| "rangeSRV L (RR_SRV srv # rest) instances s w =
     (case slice_to (Target srv) (int (length (Target srv)) - 1) of
        Panics p \<Rightarrow> (Panics p, s, w)
      | Returns target \<Rightarrow>
          (case resolveTarget L s w target of
             ((targetIp, err), s', w') \<Rightarrow>
               if err = None
               then rangeSRV L rest
                      (instances @ [\<lparr>Ip = IP_String L targetIp,
                                     Port = Sprintf_d (unat (SRV_Port srv))\<rparr>]) s' w'
               else rangeSRV L rest instances s' w'))"
| "rangeSRV L (_ # rest) instances s w = rangeSRV L rest instances s w"

text \<open>
  \<^verbatim>\<open>DiscoverAllServiceInstances\<close> returns the pair \<open>(instances, err)\<close>; a \<^verbatim>\<open>nil\<close> slice
  is the empty list.
\<close>

definition DiscoverAllServiceInstances ::
  "lib \<Rightarrow> 'n consulServiceDiscovery \<Rightarrow> 'n world \<Rightarrow> string \<Rightarrow>
     (ServiceInstance list \<times> error option) outcome \<times> 'n consulServiceDiscovery \<times> 'n world" where
  "DiscoverAllServiceInstances L s w serviceName =
     (let fqdn = Fqdn L (serviceName @ dnsSearch s);
          m = SetQuestion new_Msg fqdn TypeSRV
      in case Exchange s m (dnsServer s) w of
           (Inl err, w') \<Rightarrow> (Returns ([], Some err), s, w')
         | (Inr r, w') \<Rightarrow>
             if Rcode r \<noteq> RcodeSuccess
             then (Returns ([], Some (Errorf ''Service lookup: DNS query did not succeed'')), s, w')
             else (case rangeSRV L (Answer r) [] s w' of
                     (Panics p, s', w'') \<Rightarrow> (Panics p, s', w'')
                   | (Returns instances, s', w'') \<Rightarrow> (Returns (instances, None), s', w'')))"

text \<open>\<^verbatim>\<open>DiscoverService\<close> returns the triple \<open>(ip, port, err)\<close>.\<close>

definition DiscoverService ::
  "lib \<Rightarrow> 'n consulServiceDiscovery \<Rightarrow> 'n world \<Rightarrow> string \<Rightarrow>
     (string \<times> string \<times> error option) outcome \<times> 'n consulServiceDiscovery \<times> 'n world" where
  "DiscoverService L s w serviceName =
     (case DiscoverAllServiceInstances L s w serviceName of
        (Panics p, s', w') \<Rightarrow> (Panics p, s', w')
      | (Returns (instances, err), s', w') \<Rightarrow>
          if err \<noteq> None then (Returns ('''', '''', err), s', w')
          else if length instances = 0
          then (Returns ('''', '''',
                  Some (Errorf ''Service lookup: No SRV entry in DNS response'')), s', w')
          else (Returns (Ip (instances ! 0), Port (instances ! 0), None), s', w'))"

text \<open>
  \<^verbatim>\<open>NewConsulServiceDiscovery\<close> returns the pair \<open>(resolver, err)\<close> and, beside it, the
  host names it passed to \<^verbatim>\<open>net.LookupHost\<close>, in call order. \<open>dnsClient\<close> stands for
  the \<^verbatim>\<open>&dns.Client{}\<close> of the library.
\<close>

definition NewConsulServiceDiscovery ::
  "lib \<Rightarrow> 'n DnsClient \<Rightarrow> string \<Rightarrow>
     ('n consulServiceDiscovery option \<times> error option) \<times> string list" where
  "NewConsulServiceDiscovery L dnsClient dnsServer0 =
     (case SplitHostPort L dnsServer0 of
        Inl err \<Rightarrow> ((None, Some err), [])
      | Inr (host, port) \<Rightarrow>
          (let ret = (\<lambda>server. \<lparr>dnsServer = server, dnsSearch = ''.service.consul'',
                                client = dnsClient, targetCache = Map.empty\<rparr>)
           in if ParseIP L host = None
              then (case LookupHost L host of
                      Inl err \<Rightarrow> ((None, Some err), [host])
                    | Inr addrs \<Rightarrow>
                        if length addrs = 0
                        then ((None, Some (Errorf ''No service discovery host could be resolved'')),
                              [host])
                        else ((Some (ret (JoinHostPort L (addrs ! 0) port)), None), [host]))
              else ((Some (ret dnsServer0), None), [])))"

section \<open>Vocabulary for the properties\<close>

text \<open>The SRV records of an answer section, in the order of the answer.\<close>

fun SRVs :: "RR list \<Rightarrow> SRV list" where
  "SRVs [] = []"
| "SRVs (RR_SRV srv # rest) = srv # SRVs rest"
| "SRVs (_ # rest) = SRVs rest"

text \<open>
  The two messages the resolver sends: the SRV question of
  \<^verbatim>\<open>DiscoverAllServiceInstances\<close> for a service name, and the A question of
  \<^verbatim>\<open>resolveTarget\<close> for a target.
\<close>

definition srvQuery :: "lib \<Rightarrow> 'n consulServiceDiscovery \<Rightarrow> string \<Rightarrow> Msg" where
  "srvQuery L s serviceName = SetQuestion new_Msg (Fqdn L (serviceName @ dnsSearch s)) TypeSRV"

definition aQuery :: "lib \<Rightarrow> string \<Rightarrow> Msg" where
  "aQuery L target = SetQuestion new_Msg (Fqdn L target) TypeA"

text \<open>
  The instance the loop appends for an SRV record whose target resolved to \<open>ip\<close>.
\<close>

definition instance_of :: "lib \<Rightarrow> IP \<Rightarrow> SRV \<Rightarrow> ServiceInstance" where
  "instance_of L ip srv = \<lparr>Ip = IP_String L ip, Port = Sprintf_d (unat (SRV_Port srv))\<rparr>"

text \<open>
  A later operation on the resolver is any call of one of its three methods; a sequence
  of calls is run from left to right, each on the resolver and the world the one before
  left behind (a caller that recovers from a panic goes on with the state at the panic).
\<close>

datatype call =
  Call_resolveTarget string
| Call_DiscoverAllServiceInstances string
| Call_DiscoverService string

fun run_call ::
  "lib \<Rightarrow> call \<Rightarrow> 'n consulServiceDiscovery \<times> 'n world \<Rightarrow> 'n consulServiceDiscovery \<times> 'n world" where
  "run_call L (Call_resolveTarget target) (s, w) = snd (resolveTarget L s w target)"
| "run_call L (Call_DiscoverAllServiceInstances serviceName) (s, w) =
     snd (DiscoverAllServiceInstances L s w serviceName)"
| "run_call L (Call_DiscoverService serviceName) (s, w) = snd (DiscoverService L s w serviceName)"

fun run_calls ::
  "lib \<Rightarrow> call list \<Rightarrow> 'n consulServiceDiscovery \<times> 'n world \<Rightarrow> 'n consulServiceDiscovery \<times> 'n world" where
  "run_calls L [] sw = sw"
| "run_calls L (c # cs) sw = run_calls L cs (run_call L c sw)"

section \<open>A sample environment\<close>

text \<open>
  A small catalogue to run the operations on. The library functions are given on the
  inputs that occur; the transport counts its exchanges and answers from a fixed table:
  service \<open>api\<close> has two instances, \<open>web\<close> has three SRV records of which the second
  names a host the server does not know, \<open>idle\<close> has no SRV record, \<open>odd\<close> has an SRV
  record with an empty target, the query for \<open>down\<close> times out, and every other name
  is answered with NXDOMAIN (response code 3). Host \<open>bare\<close> has a CNAME record and no A
  record.
\<close>

fun dotted_quad :: "IP \<Rightarrow> string" where
  "dotted_quad [a, b, c, d] =
     Sprintf_d (unat a) @ ''.'' @ Sprintf_d (unat b) @ ''.'' @
     Sprintf_d (unat c) @ ''.'' @ Sprintf_d (unat d)"
| "dotted_quad ip = ''?''"

definition sample_lib :: lib where
  "sample_lib =
     \<lparr>Fqdn = (\<lambda>z. if z \<noteq> [] \<and> last z = CHR ''.'' then z else z @ ''.''),
      IP_String = dotted_quad,
      SplitHostPort = (\<lambda>z. if z = ''consul.local:8600'' then Inr (''consul.local'', ''8600'')
                           else if z = ''10.0.0.53:8600'' then Inr (''10.0.0.53'', ''8600'')
                           else if z = ''nowhere.local:8600'' then Inr (''nowhere.local'', ''8600'')
                           else if z = ''empty.local:8600'' then Inr (''empty.local'', ''8600'')
                           else Inl (LibraryError ''missing port in address'')),
      ParseIP = (\<lambda>h. if h = ''10.0.0.53'' then Some [10, 0, 0, 53] else None),
      LookupHost = (\<lambda>h. if h = ''consul.local'' then Inr [''10.0.0.7'', ''10.0.0.8'']
                        else if h = ''empty.local'' then Inr []
                        else Inl (LibraryError ''no such host'')),
      JoinHostPort = (\<lambda>h p. h @ '':'' @ p)\<rparr>"

definition srv_rr :: "string \<Rightarrow> 16 word \<Rightarrow> RR" where
  "srv_rr t p = RR_SRV \<lparr>Priority = 1, Weight = 1, SRV_Port = p, Target = t\<rparr>"

definition reply :: "Msg \<Rightarrow> int \<Rightarrow> RR list \<Rightarrow> Msg" where
  "reply m rc rrs = \<lparr>Rcode = rc, Questions = Questions m, Answer = rrs\<rparr>"

definition sample_answer :: "Question \<Rightarrow> (error + int \<times> RR list)" where
  "sample_answer q =
     (if Qtype q = TypeSRV then
        (if Name q = ''api.service.consul.''
         then Inr (0, [srv_rr ''host1.node.dc1.consul.'' 8080, srv_rr ''host2.node.dc1.consul.'' 8081])
         else if Name q = ''web.service.consul.''
         then Inr (0, [srv_rr ''host1.node.dc1.consul.'' 8080, RR_Other 16,
                       srv_rr ''gone.node.dc1.consul.'' 9090, srv_rr ''host2.node.dc1.consul.'' 8081])
         else if Name q = ''idle.service.consul.'' then Inr (0, [RR_Other 16])
         else if Name q = ''odd.service.consul.''
         then Inr (0, [srv_rr ''host1.node.dc1.consul.'' 8080, srv_rr [] 80])
         else if Name q = ''down.service.consul.'' then Inl (LibraryError ''i/o timeout'')
         else Inr (3, []))
      else if Qtype q = TypeA then
        (if Name q = ''host1.node.dc1.consul.'' then Inr (0, [RR_A [10, 0, 0, 1]])
         else if Name q = ''host2.node.dc1.consul.'' then Inr (0, [RR_Other 5, RR_A [10, 0, 0, 2]])
         else if Name q = ''bare.node.dc1.consul.'' then Inr (0, [RR_Other 5])
         else Inr (3, []))
      else Inr (4, []))"

definition sample_client :: "nat DnsClient" where
  "sample_client m address n =
     (case Questions m of
        [q] \<Rightarrow> (case sample_answer q of
                  Inl err \<Rightarrow> (Inl err, Suc n)
                | Inr (rc, rrs) \<Rightarrow> (Inr (reply m rc rrs), Suc n))
      | _ \<Rightarrow> (Inr (reply m 1 []), Suc n))"

definition sample_resolver :: "nat consulServiceDiscovery" where
  "sample_resolver =
     \<lparr>dnsServer = ''10.0.0.53:8600'', dnsSearch = ''.service.consul'',
      client = sample_client, targetCache = Map.empty\<rparr>"

definition sample_world :: "nat world" where
  "sample_world = \<lparr>net = 0, exchanged = []\<rparr>"

definition sample_addr :: "string \<Rightarrow> IP" where
  "sample_addr t = (if t = ''host1.node.dc1.consul'' then [10, 0, 0, 1] else [10, 0, 0, 2])"

section \<open>How one call changes the resolver and the world\<close>

lemma resolveTarget_hit:
  "targetCache s t = Some v \<Longrightarrow> resolveTarget L s w t = ((v, None), s, w)"
  by (simp add: resolveTarget_def)

lemma resolveTarget_frame:
  "resolveTarget L s w t = (res, s', w') \<Longrightarrow>
     dnsServer s' = dnsServer s \<and> dnsSearch s' = dnsSearch s \<and> client s' = client s"
  by (auto simp: resolveTarget_def Let_def split: option.splits prod.splits sum.splits if_splits)

lemma resolveTarget_error:
  "resolveTarget L s w t = ((ip, Some e), s', w') \<Longrightarrow>
     s' = s \<and> ip = [] \<and> targetCache s t = None \<and>
     exchanged w' = exchanged w @ [(aQuery L t, dnsServer s)]"
  by (auto simp: resolveTarget_def Exchange_def aQuery_def Let_def
           split: option.splits prod.splits sum.splits if_splits)

lemma resolveTarget_success:
  "resolveTarget L s w t = ((ip, None), s', w') \<Longrightarrow>
     s' = s\<lparr>targetCache := (targetCache s)(t \<mapsto> ip)\<rparr>"
  by (auto simp: resolveTarget_def Let_def map_upd_triv
           split: option.splits prod.splits sum.splits if_splits)

lemma resolveTarget_keeps:
  "resolveTarget L s w t = (res, s', w') \<Longrightarrow> targetCache s k = Some v \<Longrightarrow>
     targetCache s' k = Some v"
  by (auto simp: resolveTarget_def Let_def split: option.splits prod.splits sum.splits if_splits)

lemma resolveTarget_same:
  "targetCache s t = targetCache s0 t \<Longrightarrow> client s = client s0 \<Longrightarrow> dnsServer s = dnsServer s0 \<Longrightarrow>
     fst (resolveTarget L s w t) = fst (resolveTarget L s0 w t)"
  by (auto simp: resolveTarget_def Exchange_def Let_def
           split: option.splits prod.splits sum.splits if_splits)

lemma rangeSRV_frame:
  "rangeSRV L rrs acc s w = (res, s', w') \<Longrightarrow>
     dnsServer s' = dnsServer s \<and> dnsSearch s' = dnsSearch s \<and> client s' = client s"
proof (induction L rrs acc s w rule: rangeSRV.induct)
  case (2 L srv rest instances s w)
  show ?case
  proof (cases "slice_to (Target srv) (int (length (Target srv)) - 1)")
    case (Panics p)
    with "2.prems" show ?thesis by simp
  next
    case (Returns target)
    obtain ip err s1 w1 where r: "resolveTarget L s w target = ((ip, err), s1, w1)"
      by (metis prod.exhaust)
    from resolveTarget_frame[OF r] "2.IH"(1)[OF Returns r[symmetric]] "2.IH"(2)[OF Returns r[symmetric]]
      "2.prems" Returns r
    show ?thesis by (auto split: if_splits)
  qed
qed auto

lemma rangeSRV_keeps:
  "rangeSRV L rrs acc s w = (res, s', w') \<Longrightarrow> targetCache s k = Some v \<Longrightarrow>
     targetCache s' k = Some v"
proof (induction L rrs acc s w rule: rangeSRV.induct)
  case (2 L srv rest instances s w)
  show ?case
  proof (cases "slice_to (Target srv) (int (length (Target srv)) - 1)")
    case (Panics p)
    with "2.prems" show ?thesis by simp
  next
    case (Returns target)
    obtain ip err s1 w1 where r: "resolveTarget L s w target = ((ip, err), s1, w1)"
      by (metis prod.exhaust)
    from resolveTarget_keeps[OF r "2.prems"(2)] "2.IH"(1)[OF Returns r[symmetric]] "2.IH"(2)[OF Returns r[symmetric]]
      "2.prems" Returns r
    show ?thesis by (auto split: if_splits)
  qed
qed auto

lemma DiscoverAll_frame:
  "DiscoverAllServiceInstances L s w serviceName = (res, s', w') \<Longrightarrow>
     dnsServer s' = dnsServer s \<and> dnsSearch s' = dnsSearch s \<and> client s' = client s"
  by (auto simp: DiscoverAllServiceInstances_def Let_def
           split: prod.splits sum.splits if_splits outcome.splits dest: rangeSRV_frame)

lemma DiscoverAll_keeps:
  "DiscoverAllServiceInstances L s w serviceName = (res, s', w') \<Longrightarrow>
     targetCache s k = Some v \<Longrightarrow> targetCache s' k = Some v"
  by (auto simp: DiscoverAllServiceInstances_def Let_def
           split: prod.splits sum.splits if_splits outcome.splits dest: rangeSRV_keeps)

lemma DiscoverService_state:
  "snd (DiscoverService L s w serviceName) = snd (DiscoverAllServiceInstances L s w serviceName)"
  by (auto simp: DiscoverService_def split: prod.splits outcome.splits)

lemma run_call_keeps:
  "run_call L c (s, w) = (s', w') \<Longrightarrow> targetCache s k = Some v \<Longrightarrow> targetCache s' k = Some v"
proof (cases c)
  case (Call_resolveTarget t)
  assume a: "run_call L c (s, w) = (s', w')" "targetCache s k = Some v"
  obtain res where "resolveTarget L s w t = (res, s', w')"
    using a(1) Call_resolveTarget by (cases "resolveTarget L s w t") simp
  then show ?thesis using a(2) by (rule resolveTarget_keeps)
next
  case (Call_DiscoverAllServiceInstances n)
  assume a: "run_call L c (s, w) = (s', w')" "targetCache s k = Some v"
  obtain res where "DiscoverAllServiceInstances L s w n = (res, s', w')"
    using a(1) Call_DiscoverAllServiceInstances
    by (cases "DiscoverAllServiceInstances L s w n") simp
  then show ?thesis using a(2) by (rule DiscoverAll_keeps)
next
  case (Call_DiscoverService n)
  assume a: "run_call L c (s, w) = (s', w')" "targetCache s k = Some v"
  obtain res where "DiscoverAllServiceInstances L s w n = (res, s', w')"
    using a(1) Call_DiscoverService
    by (cases "DiscoverAllServiceInstances L s w n") (simp add: DiscoverService_state)
  then show ?thesis using a(2) by (rule DiscoverAll_keeps)
qed

lemma run_calls_keeps:
  "run_calls L cs (s, w) = (s', w') \<Longrightarrow> targetCache s k = Some v \<Longrightarrow> targetCache s' k = Some v"
proof (induction cs arbitrary: s w)
  case Nil
  then show ?case by simp
next
  case (Cons c cs)
  obtain s1 w1 where c: "run_call L c (s, w) = (s1, w1)"
    by (cases "run_call L c (s, w)")
  from run_call_keeps[OF c Cons.prems(2)] have "targetCache s1 k = Some v" .
  moreover from Cons.prems(1) c have "run_calls L cs (s1, w1) = (s', w')" by simp
  ultimately show ?case by (rule Cons.IH[rotated])
qed

section \<open>The loop over the SRV records\<close>

lemma slice_to_butlast:
  "t \<noteq> [] \<Longrightarrow> slice_to t (int (length t) - 1) = Returns (butlast t)"
  by (cases t rule: rev_cases) (auto simp: slice_to_def)

lemma slice_to_empty:
  "slice_to [] (int (length ([] :: string)) - 1) = Panics SliceBoundsOutOfRange"
  by (simp add: slice_to_def)

lemma rangeA_None:
  "rangeA rrs = None \<longleftrightarrow> (\<forall>ip. RR_A ip \<notin> set rrs)"
  by (induction rrs rule: rangeA.induct) auto

lemma rangeSRV_step:
  "Target srv \<noteq> [] \<Longrightarrow>
     rangeSRV L (RR_SRV srv # rest) acc s w =
       (case resolveTarget L s w (butlast (Target srv)) of
          ((ip, err), s', w') \<Rightarrow>
            rangeSRV L rest (if err = None then acc @ [instance_of L ip srv] else acc) s' w')"
  by (simp add: slice_to_butlast instance_of_def split: prod.splits)

lemma rangeSRV_panics:
  "\<exists>srv \<in> set (SRVs rrs). Target srv = [] \<Longrightarrow>
     fst (rangeSRV L rrs acc s w) = Panics SliceBoundsOutOfRange"
proof (induction rrs arbitrary: acc s w)
  case Nil
  then show ?case by simp
next
  case (Cons a rrs)
  show ?case
  proof (cases a)
    case (RR_SRV srv)
    show ?thesis
    proof (cases "Target srv = []")
      case True
      with RR_SRV show ?thesis by (simp add: slice_to_def)
    next
      case False
      with Cons.prems RR_SRV have "\<exists>srv \<in> set (SRVs rrs). Target srv = []" by auto
      from Cons.IH[OF this] False RR_SRV show ?thesis
        by (simp add: rangeSRV_step del: rangeSRV.simps split: prod.splits)
    qed
  next
    case (RR_A ip)
    with Cons show ?thesis by simp
  next
    case (RR_Other c)
    with Cons show ?thesis by simp
  qed
qed

lemma rangeSRV_returns:
  "\<forall>srv \<in> set (SRVs rrs). Target srv \<noteq> [] \<Longrightarrow>
     \<exists>instances. fst (rangeSRV L rrs acc s w) = Returns instances"
proof (induction rrs arbitrary: acc s w)
  case Nil
  then show ?case by simp
next
  case (Cons a rrs)
  show ?case
  proof (cases a)
    case (RR_SRV srv)
    with Cons.prems have ne: "Target srv \<noteq> []" and rest: "\<forall>srv \<in> set (SRVs rrs). Target srv \<noteq> []"
      by auto
    from Cons.IH[OF rest] ne RR_SRV show ?thesis
      by (simp add: rangeSRV_step del: rangeSRV.simps split: prod.splits)
  next
    case (RR_A ip)
    with Cons show ?thesis by simp
  next
    case (RR_Other c)
    with Cons show ?thesis by simp
  qed
qed

lemma rangeSRV_resolves:
  fixes addr :: "string \<Rightarrow> IP option"
  assumes "client s = client s0" and "dnsServer s = dnsServer s0"
    and "\<forall>t. targetCache s t = targetCache s0 t \<or> (\<exists>a. targetCache s t = Some a \<and> addr t = Some a)"
    and "\<forall>srv \<in> set (SRVs rrs). Target srv \<noteq> [] \<and>
           (case addr (butlast (Target srv)) of
              Some a \<Rightarrow> \<forall>w. fst (resolveTarget L s0 w (butlast (Target srv))) = (a, None)
            | None \<Rightarrow> \<forall>w. snd (fst (resolveTarget L s0 w (butlast (Target srv)))) \<noteq> None)"
  shows "fst (rangeSRV L rrs acc s w) =
           Returns (acc @ map (\<lambda>srv. instance_of L (the (addr (butlast (Target srv)))) srv)
                            (filter (\<lambda>srv. addr (butlast (Target srv)) \<noteq> None) (SRVs rrs)))"
  using assms
proof (induction rrs arbitrary: acc s w)
  case Nil
  then show ?case by simp
next
  case (Cons a rrs)
  show ?case
  proof (cases a)
    case (RR_SRV srv)
    let ?t = "butlast (Target srv)"
    from Cons.prems(4) RR_SRV have ne: "Target srv \<noteq> []"
      and rest: "\<forall>srv \<in> set (SRVs rrs). Target srv \<noteq> [] \<and>
           (case addr (butlast (Target srv)) of
              Some a \<Rightarrow> \<forall>w. fst (resolveTarget L s0 w (butlast (Target srv))) = (a, None)
            | None \<Rightarrow> \<forall>w. snd (fst (resolveTarget L s0 w (butlast (Target srv)))) \<noteq> None)"
      and here: "case addr ?t of
              Some a \<Rightarrow> \<forall>w. fst (resolveTarget L s0 w ?t) = (a, None)
            | None \<Rightarrow> \<forall>w. snd (fst (resolveTarget L s0 w ?t)) \<noteq> None"
      by auto
    obtain ip err s1 w1 where r: "resolveTarget L s w ?t = ((ip, err), s1, w1)"
      by (metis prod.exhaust)
    from resolveTarget_frame[OF r] Cons.prems(1,2)
    have fr: "client s1 = client s0" "dnsServer s1 = dnsServer s0" by simp_all
    show ?thesis
    proof (cases "addr ?t")
      case None
      with Cons.prems(3) have "targetCache s ?t = targetCache s0 ?t" by (metis option.distinct(1))
      from resolveTarget_same[OF this Cons.prems(1,2), of L w]
      have e2: "fst (resolveTarget L s w ?t) = fst (resolveTarget L s0 w ?t)" .
      have e3: "snd (fst (resolveTarget L s0 w ?t)) \<noteq> None"
        using here None by simp
      from r have e1: "snd (fst (resolveTarget L s w ?t)) = err" by simp
      have "err \<noteq> None" unfolding e1[symmetric] e2 by (rule e3)
      then obtain e where e: "err = Some e" by auto
      from resolveTarget_error[OF r[unfolded e]] have "s1 = s" by simp
      with Cons.prems(3) have inv: "\<forall>t. targetCache s1 t = targetCache s0 t \<or>
          (\<exists>a. targetCache s1 t = Some a \<and> addr t = Some a)" by simp
      from Cons.IH[OF fr inv rest, of acc w1] ne RR_SRV r e None show ?thesis
        by (simp add: rangeSRV_step del: rangeSRV.simps)
    next
      case (Some a)
      have "fst (resolveTarget L s w ?t) = (a, None)"
      proof (cases "targetCache s ?t = targetCache s0 ?t")
        case True
        from resolveTarget_same[OF True Cons.prems(1,2), of L w] here Some show ?thesis by simp
      next
        case False
        with Cons.prems(3) Some have "targetCache s ?t = Some a" by (metis option.inject)
        then show ?thesis by (simp add: resolveTarget_hit)
      qed
      with r have ok: "ip = a" "err = None" by simp_all
      from resolveTarget_success[OF r[unfolded ok]]
      have s1: "s1 = s\<lparr>targetCache := (targetCache s)(?t \<mapsto> a)\<rparr>" .
      have inv: "\<forall>t. targetCache s1 t = targetCache s0 t \<or>
          (\<exists>a. targetCache s1 t = Some a \<and> addr t = Some a)"
        using Cons.prems(3) Some by (simp add: s1)
      from Cons.IH[OF fr inv rest, of "acc @ [instance_of L a srv]" w1] ne RR_SRV r ok Some
      show ?thesis by (simp add: rangeSRV_step del: rangeSRV.simps)
    qed
  next
    case (RR_A ip)
    with Cons.IH[OF Cons.prems(1,2,3)] Cons.prems(4) show ?thesis by simp
  next
    case (RR_Other c)
    with Cons.IH[OF Cons.prems(1,2,3)] Cons.prems(4) show ?thesis by simp
  qed
qed

section \<open>The SRV query\<close>

lemma Exchange_eq:
  "Exchange s m address w =
     (fst (client s m address (net w)),
      \<lparr>net = snd (client s m address (net w)), exchanged = exchanged w @ [(m, address)]\<rparr>)"
  by (simp add: Exchange_def split: prod.splits)

lemma DiscoverAll_srv_failed:
  assumes "fst (client s (srvQuery L s serviceName) (dnsServer s) (net w)) = Inl e"
  shows "DiscoverAllServiceInstances L s w serviceName =
           (Returns ([], Some e), s,
            \<lparr>net = snd (client s (srvQuery L s serviceName) (dnsServer s) (net w)),
             exchanged = exchanged w @ [(srvQuery L s serviceName, dnsServer s)]\<rparr>)"
  using assms
  by (simp add: DiscoverAllServiceInstances_def Exchange_eq srvQuery_def Let_def)

lemma DiscoverAll_srv_refused:
  assumes "fst (client s (srvQuery L s serviceName) (dnsServer s) (net w)) = Inr r"
    and "Rcode r \<noteq> RcodeSuccess"
  shows "DiscoverAllServiceInstances L s w serviceName =
           (Returns ([], Some (Errorf ''Service lookup: DNS query did not succeed'')), s,
            \<lparr>net = snd (client s (srvQuery L s serviceName) (dnsServer s) (net w)),
             exchanged = exchanged w @ [(srvQuery L s serviceName, dnsServer s)]\<rparr>)"
  using assms
  by (simp add: DiscoverAllServiceInstances_def Exchange_eq srvQuery_def Let_def)

lemma DiscoverAll_srv_answered:
  assumes "fst (client s (srvQuery L s serviceName) (dnsServer s) (net w)) = Inr r"
    and "Rcode r = RcodeSuccess"
  shows "DiscoverAllServiceInstances L s w serviceName =
           (case rangeSRV L (Answer r) [] s
                   \<lparr>net = snd (client s (srvQuery L s serviceName) (dnsServer s) (net w)),
                    exchanged = exchanged w @ [(srvQuery L s serviceName, dnsServer s)]\<rparr> of
              (Panics p, s', w') \<Rightarrow> (Panics p, s', w')
            | (Returns instances, s', w') \<Rightarrow> (Returns (instances, None), s', w'))"
  using assms
  by (simp add: DiscoverAllServiceInstances_def Exchange_eq srvQuery_def Let_def)

lemma DiscoverAll_fst:
  assumes "fst (client s (srvQuery L s serviceName) (dnsServer s) (net w)) = Inr r"
    and "Rcode r = RcodeSuccess"
  shows "fst (DiscoverAllServiceInstances L s w serviceName) =
           (case fst (rangeSRV L (Answer r) [] s
                   \<lparr>net = snd (client s (srvQuery L s serviceName) (dnsServer s) (net w)),
                    exchanged = exchanged w @ [(srvQuery L s serviceName, dnsServer s)]\<rparr>) of
              Panics p \<Rightarrow> Panics p
            | Returns instances \<Rightarrow> Returns (instances, None))"
  by (simp add: DiscoverAll_srv_answered[OF assms] split: prod.splits outcome.splits)

lemma resolveTarget_no_A_record:
  assumes "targetCache s target = None"
    and "fst (client s (aQuery L target) (dnsServer s) (net w)) = Inr r"
    and "Rcode r = RcodeSuccess"
    and "\<forall>ip. RR_A ip \<notin> set (Answer r)"
  shows "resolveTarget L s w target =
           (([], Some (Errorf ''Service lookup: No A entry in DNS response'')), s,
            \<lparr>net = snd (client s (aQuery L target) (dnsServer s) (net w)),
             exchanged = exchanged w @ [(aQuery L target, dnsServer s)]\<rparr>)"
proof -
  from assms(4) have "rangeA (Answer r) = None" by (simp add: rangeA_None)
  with assms(1-3) show ?thesis
    by (simp add: resolveTarget_def Exchange_eq aQuery_def Let_def)
qed

lemma resolveTarget_miss_log:
  "targetCache s target = None \<Longrightarrow>
     exchanged (snd (snd (resolveTarget L s w target))) =
       exchanged w @ [(aQuery L target, dnsServer s)]"
  by (simp add: resolveTarget_def Exchange_eq aQuery_def Let_def
           split: sum.splits option.splits)

lemma rangeA_first:
  "\<forall>a. RR_A a \<notin> set pre \<Longrightarrow> rangeA (pre @ RR_A ip # post) = Some ip"
proof (induction pre)
  case Nil
  then show ?case by simp
next
  case (Cons x pre)
  then show ?case by (cases x) auto
qed

lemma resolveTarget_stores:
  assumes "targetCache s target = None"
    and "fst (client s (aQuery L target) (dnsServer s) (net w)) = Inr r"
    and "Rcode r = RcodeSuccess"
    and "Answer r = pre @ RR_A ip # post"
    and "\<forall>a. RR_A a \<notin> set pre"
  shows "resolveTarget L s w target =
           ((ip, None), s\<lparr>targetCache := (targetCache s)(target \<mapsto> ip)\<rparr>,
            \<lparr>net = snd (client s (aQuery L target) (dnsServer s) (net w)),
             exchanged = exchanged w @ [(aQuery L target, dnsServer s)]\<rparr>)"
proof -
  from assms(4,5) have "rangeA (Answer r) = Some ip" by (simp add: rangeA_first)
  with assms(1-3) show ?thesis
    by (simp add: resolveTarget_def Exchange_eq aQuery_def Let_def)
qed

section \<open>The sample environment, evaluated\<close>

lemmas sample_defs =
  sample_lib_def sample_resolver_def sample_world_def sample_client_def sample_answer_def
  srv_rr_def reply_def SetQuestion_def new_Msg_def TypeSRV_def TypeA_def RcodeSuccess_def
  srvQuery_def aQuery_def

lemma sample_numbers:
  "Sprintf_d 0 = ''0''"
  "Sprintf_d (Suc 0) = ''1''"
  "Sprintf_d 2 = ''2''"
  "Sprintf_d 10 = ''10''"
  "Sprintf_d 8080 = ''8080''"
  "Sprintf_d 8081 = ''8081''"
  by (simp_all add: Sprintf_d.simps digit_def)

lemma sample_strings:
  "IP_String sample_lib [10, 0, 0, 1] = ''10.0.0.1''"
  "IP_String sample_lib [10, 0, 0, 2] = ''10.0.0.2''"
  by (simp_all add: sample_lib_def sample_numbers)

lemma sample_hosts:
  "fst (resolveTarget sample_lib sample_resolver w' ''host1.node.dc1.consul'') = ([10, 0, 0, 1], None)"
  "fst (resolveTarget sample_lib sample_resolver w' ''host2.node.dc1.consul'') = ([10, 0, 0, 2], None)"
  "snd (fst (resolveTarget sample_lib sample_resolver w' ''gone.node.dc1.consul'')) \<noteq> None"
  by (simp_all add: resolveTarget_def Exchange_eq sample_defs)

section \<open>The claims\<close>

text \<open>
  Claim C1. Let the SRV query succeed with response code success, and let every SRV
  record of the answer have a target that resolves: the target is not empty, and
  \<^verbatim>\<open>resolveTarget\<close> for the host name (the target without its last character), called
  on the resolver as it is before the call, returns the address \<open>addr\<close> of that host
  name with a \<^verbatim>\<open>nil\<close> error, in whatever state the transport is. Then
  \<^verbatim>\<open>DiscoverAllServiceInstances\<close> returns a \<^verbatim>\<open>nil\<close> error and one instance for each SRV
  record, in the order of the answer: its ip is the string of the address of the
  record's target, its port the decimal digits of the record's port. Records of other
  types in the answer are passed over, so the list has as many elements as the answer
  has SRV records.
\<close>

theorem all_targets_resolve:
  fixes addr :: "string \<Rightarrow> IP"
  assumes "fst (client s (srvQuery L s serviceName) (dnsServer s) (net w)) = Inr r"
    and "Rcode r = RcodeSuccess"
    and "\<forall>srv \<in> set (SRVs (Answer r)).
           Target srv \<noteq> [] \<and>
           (\<forall>w'. fst (resolveTarget L s w' (butlast (Target srv))) =
                    (addr (butlast (Target srv)), None))"
  shows "fst (DiscoverAllServiceInstances L s w serviceName) =
           Returns (map (\<lambda>srv. \<lparr>Ip = IP_String L (addr (butlast (Target srv))),
                                  Port = Sprintf_d (unat (SRV_Port srv))\<rparr>)
                        (SRVs (Answer r)), None) \<and>
         length (map (\<lambda>srv. \<lparr>Ip = IP_String L (addr (butlast (Target srv))),
                                Port = Sprintf_d (unat (SRV_Port srv))\<rparr>)
                     (SRVs (Answer r))) = length (SRVs (Answer r))"
proof -
  let ?w1 = "\<lparr>net = snd (client s (srvQuery L s serviceName) (dnsServer s) (net w)),
              exchanged = exchanged w @ [(srvQuery L s serviceName, dnsServer s)]\<rparr>"
  have good: "\<forall>srv \<in> set (SRVs (Answer r)). Target srv \<noteq> [] \<and>
           (case (Some \<circ> addr) (butlast (Target srv)) of
              Some a \<Rightarrow> \<forall>w. fst (resolveTarget L s w (butlast (Target srv))) = (a, None)
            | None \<Rightarrow> \<forall>w. snd (fst (resolveTarget L s w (butlast (Target srv)))) \<noteq> None)"
    using assms(3) by simp
  have "fst (rangeSRV L (Answer r) [] s ?w1) =
          Returns ([] @ map (\<lambda>srv. instance_of L (the ((Some \<circ> addr) (butlast (Target srv)))) srv)
                            (filter (\<lambda>srv. (Some \<circ> addr) (butlast (Target srv)) \<noteq> None)
                               (SRVs (Answer r))))"
    by (rule rangeSRV_resolves[where ?s0.0 = s, OF refl refl _ good]) simp
  then have "fst (rangeSRV L (Answer r) [] s ?w1) =
          Returns (map (\<lambda>srv. \<lparr>Ip = IP_String L (addr (butlast (Target srv))),
                                  Port = Sprintf_d (unat (SRV_Port srv))\<rparr>)
                        (SRVs (Answer r)))"
    by (simp add: instance_of_def)
  with DiscoverAll_fst[OF assms(1,2)] show ?thesis by simp
qed

theorem all_targets_resolve_witness:
  "fst (DiscoverAllServiceInstances sample_lib sample_resolver sample_world ''api'') =
     Returns ([\<lparr>Ip = ''10.0.0.1'', Port = ''8080''\<rparr>, \<lparr>Ip = ''10.0.0.2'', Port = ''8081''\<rparr>], None)"
proof -
  let ?api = "reply (srvQuery sample_lib sample_resolver ''api'') 0
                [srv_rr ''host1.node.dc1.consul.'' 8080, srv_rr ''host2.node.dc1.consul.'' 8081]"
  have api: "fst (client sample_resolver (srvQuery sample_lib sample_resolver ''api'')
                (dnsServer sample_resolver) (net sample_world)) = Inr ?api"
    by (simp add: sample_defs)
  have rc: "Rcode ?api = RcodeSuccess"
    by (simp add: reply_def RcodeSuccess_def)
  have srvs: "SRVs (Answer ?api) =
      [\<lparr>Priority = 1, Weight = 1, SRV_Port = 8080, Target = ''host1.node.dc1.consul.''\<rparr>,
       \<lparr>Priority = 1, Weight = 1, SRV_Port = 8081, Target = ''host2.node.dc1.consul.''\<rparr>]"
    by (simp add: reply_def srv_rr_def)
  have good: "\<forall>srv \<in> set (SRVs (Answer ?api)).
           Target srv \<noteq> [] \<and>
           (\<forall>w'. fst (resolveTarget sample_lib sample_resolver w' (butlast (Target srv))) =
                    (sample_addr (butlast (Target srv)), None))"
    unfolding srvs by (simp add: sample_hosts sample_addr_def)
  from all_targets_resolve[OF api rc good]
  show ?thesis unfolding srvs by (simp add: sample_addr_def sample_strings sample_numbers)
qed

text \<open>
  Claim C2. \<^verbatim>\<open>DiscoverAllServiceInstances\<close> never returns an error together with
  instances. Whenever it returns \<open>(instances, err)\<close>, either \<open>err\<close> is \<^verbatim>\<open>nil\<close>, or
  the list is empty and the error comes from the SRV query: the transport failed and its
  error is passed on, or the response code is not success. In the second case the only
  message exchanged during the call is the SRV question (no A query was sent) and the
  resolver is as it was, so the error arose before any target was looked at.
\<close>

theorem DiscoverAll_error_without_instances:
  assumes "DiscoverAllServiceInstances L s w serviceName = (Returns (instances, err), s', w')"
  shows "err = None \<or>
         (instances = [] \<and> s' = s \<and>
          exchanged w' = exchanged w @ [(srvQuery L s serviceName, dnsServer s)] \<and>
          (case fst (client s (srvQuery L s serviceName) (dnsServer s) (net w)) of
             Inl e \<Rightarrow> err = Some e
           | Inr r \<Rightarrow> Rcode r \<noteq> RcodeSuccess \<and>
                      err = Some (Errorf ''Service lookup: DNS query did not succeed'')))"
proof (cases "fst (client s (srvQuery L s serviceName) (dnsServer s) (net w))")
  case (Inl e)
  from DiscoverAll_srv_failed[OF Inl] assms Inl show ?thesis by simp
next
  case (Inr r)
  show ?thesis
  proof (cases "Rcode r = RcodeSuccess")
    case True
    from DiscoverAll_srv_answered[OF Inr True] assms have "err = None"
      by (auto split: prod.splits outcome.splits)
    then show ?thesis ..
  next
    case False
    from DiscoverAll_srv_refused[OF Inr False] assms Inr False show ?thesis by simp
  qed
qed

theorem DiscoverAll_error_without_instances_witness:
  "DiscoverAllServiceInstances sample_lib sample_resolver sample_world ''down'' =
     (Returns ([], Some (LibraryError ''i/o timeout'')), sample_resolver,
      \<lparr>net = 1, exchanged = [(srvQuery sample_lib sample_resolver ''down'', ''10.0.0.53:8600'')]\<rparr>) \<and>
   exchanged sample_world @ [(srvQuery sample_lib sample_resolver ''down'', dnsServer sample_resolver)] =
     [(srvQuery sample_lib sample_resolver ''down'', ''10.0.0.53:8600'')]"
proof -
  have run: "DiscoverAllServiceInstances sample_lib sample_resolver sample_world ''down'' =
     (Returns ([], Some (LibraryError ''i/o timeout'')), sample_resolver,
      \<lparr>net = 1, exchanged = [(srvQuery sample_lib sample_resolver ''down'', ''10.0.0.53:8600'')]\<rparr>)"
    by (simp add: DiscoverAllServiceInstances_def Exchange_def srvQuery_def sample_lib_def
          sample_resolver_def sample_world_def sample_client_def sample_answer_def
          SetQuestion_def new_Msg_def TypeSRV_def TypeA_def)
  from DiscoverAll_error_without_instances[OF run] run show ?thesis by simp
qed

text \<open>
  Claim C3. Let the SRV query succeed with response code success, let the SRV records
  of the answer be \<open>before\<close>, then \<open>bad\<close>, then \<open>after\<close>, let the target of every
  record of \<open>before\<close> and \<open>after\<close> resolve as in C1, and let the resolution of the
  (non-empty) target of \<open>bad\<close> fail: \<^verbatim>\<open>resolveTarget\<close> returns a non-nil error for it in
  whatever state the transport is. Then \<^verbatim>\<open>DiscoverAllServiceInstances\<close> returns a \<^verbatim>\<open>nil\<close>
  error and the instances of the records of \<open>before\<close> and \<open>after\<close>, in order: one
  instance fewer than the answer has SRV records. The failure of \<open>bad\<close> is not
  returned.
\<close>

theorem one_target_fails:
  fixes addr :: "string \<Rightarrow> IP"
  assumes "fst (client s (srvQuery L s serviceName) (dnsServer s) (net w)) = Inr r"
    and "Rcode r = RcodeSuccess"
    and "SRVs (Answer r) = before @ bad # after"
    and "\<forall>srv \<in> set (before @ after).
           Target srv \<noteq> [] \<and>
           (\<forall>w'. fst (resolveTarget L s w' (butlast (Target srv))) =
                    (addr (butlast (Target srv)), None))"
    and "Target bad \<noteq> []"
    and "\<forall>w'. snd (fst (resolveTarget L s w' (butlast (Target bad)))) \<noteq> None"
  shows "fst (DiscoverAllServiceInstances L s w serviceName) =
           Returns (map (\<lambda>srv. \<lparr>Ip = IP_String L (addr (butlast (Target srv))),
                                  Port = Sprintf_d (unat (SRV_Port srv))\<rparr>)
                        (before @ after), None) \<and>
         length (map (\<lambda>srv. \<lparr>Ip = IP_String L (addr (butlast (Target srv))),
                                Port = Sprintf_d (unat (SRV_Port srv))\<rparr>)
                     (before @ after)) = length (SRVs (Answer r)) - 1"
proof -
  let ?w1 = "\<lparr>net = snd (client s (srvQuery L s serviceName) (dnsServer s) (net w)),
              exchanged = exchanged w @ [(srvQuery L s serviceName, dnsServer s)]\<rparr>"
  let ?b = "butlast (Target bad)"
  let ?addr = "\<lambda>t. if t = ?b then None else Some (addr t)"
  have differ: "butlast (Target srv) \<noteq> ?b" if "srv \<in> set (before @ after)" for srv
  proof
    assume eq: "butlast (Target srv) = ?b"
    from assms(4) that have "fst (resolveTarget L s w ?b) = (addr ?b, None)"
      unfolding eq[symmetric] by blast
    with assms(6) show False by (metis snd_conv)
  qed
  have good: "\<forall>srv \<in> set (SRVs (Answer r)). Target srv \<noteq> [] \<and>
           (case ?addr (butlast (Target srv)) of
              Some a \<Rightarrow> \<forall>w. fst (resolveTarget L s w (butlast (Target srv))) = (a, None)
            | None \<Rightarrow> \<forall>w. snd (fst (resolveTarget L s w (butlast (Target srv)))) \<noteq> None)"
  proof
    fix srv assume "srv \<in> set (SRVs (Answer r))"
    then have "srv = bad \<or> srv \<in> set (before @ after)" by (auto simp: assms(3))
    then show "Target srv \<noteq> [] \<and>
           (case ?addr (butlast (Target srv)) of
              Some a \<Rightarrow> \<forall>w. fst (resolveTarget L s w (butlast (Target srv))) = (a, None)
            | None \<Rightarrow> \<forall>w. snd (fst (resolveTarget L s w (butlast (Target srv)))) \<noteq> None)"
    proof
      assume "srv = bad"
      with assms(5,6) show ?thesis by simp
    next
      assume m: "srv \<in> set (before @ after)"
      from differ[OF m] assms(4) m show ?thesis by simp
    qed
  qed
  have keep: "filter (\<lambda>srv. ?addr (butlast (Target srv)) \<noteq> None) (SRVs (Answer r)) = before @ after"
  proof -
    have "filter (\<lambda>srv. ?addr (butlast (Target srv)) \<noteq> None) xs = xs"
      if "set xs \<subseteq> set (before @ after)" for xs
      using that differ by (induction xs) auto
    from this[of before] this[of after] show ?thesis by (simp add: assms(3))
  qed
  have loop: "fst (rangeSRV L (Answer r) [] s ?w1) =
          Returns ([] @ map (\<lambda>srv. instance_of L (the (?addr (butlast (Target srv)))) srv)
                            (filter (\<lambda>srv. ?addr (butlast (Target srv)) \<noteq> None)
                               (SRVs (Answer r))))"
    by (rule rangeSRV_resolves[where ?s0.0 = s, OF refl refl _ good]) simp
  have same: "map (\<lambda>srv. instance_of L (the (?addr (butlast (Target srv)))) srv) (before @ after) =
        map (\<lambda>srv. \<lparr>Ip = IP_String L (addr (butlast (Target srv))),
                                  Port = Sprintf_d (unat (SRV_Port srv))\<rparr>) (before @ after)"
    using differ by (intro map_cong refl) (simp add: instance_of_def)
  from loop have "fst (rangeSRV L (Answer r) [] s ?w1) =
          Returns (map (\<lambda>srv. \<lparr>Ip = IP_String L (addr (butlast (Target srv))),
                                  Port = Sprintf_d (unat (SRV_Port srv))\<rparr>)
                        (before @ after))"
    unfolding keep same by simp
  with DiscoverAll_fst[OF assms(1,2)] show ?thesis by (simp add: assms(3))
qed

theorem one_target_fails_witness:
  "fst (DiscoverAllServiceInstances sample_lib sample_resolver sample_world ''web'') =
     Returns ([\<lparr>Ip = ''10.0.0.1'', Port = ''8080''\<rparr>, \<lparr>Ip = ''10.0.0.2'', Port = ''8081''\<rparr>], None) \<and>
   length [\<lparr>Ip = ''10.0.0.1'', Port = ''8080''\<rparr>, \<lparr>Ip = ''10.0.0.2'', Port = ''8081''\<rparr>] =
     length (SRVs [srv_rr ''host1.node.dc1.consul.'' 8080, RR_Other 16,
                   srv_rr ''gone.node.dc1.consul.'' 9090, srv_rr ''host2.node.dc1.consul.'' 8081]) - 1"
proof -
  let ?rrs = "[srv_rr ''host1.node.dc1.consul.'' 8080, RR_Other 16,
               srv_rr ''gone.node.dc1.consul.'' 9090, srv_rr ''host2.node.dc1.consul.'' 8081]"
  let ?web = "reply (srvQuery sample_lib sample_resolver ''web'') 0 ?rrs"
  let ?h1 = "\<lparr>Priority = 1, Weight = 1, SRV_Port = 8080, Target = ''host1.node.dc1.consul.''\<rparr>"
  let ?gone = "\<lparr>Priority = 1, Weight = 1, SRV_Port = 9090, Target = ''gone.node.dc1.consul.''\<rparr>"
  let ?h2 = "\<lparr>Priority = 1, Weight = 1, SRV_Port = 8081, Target = ''host2.node.dc1.consul.''\<rparr>"
  have web: "fst (client sample_resolver (srvQuery sample_lib sample_resolver ''web'')
                (dnsServer sample_resolver) (net sample_world)) = Inr ?web"
    by (simp add: sample_defs)
  have rc: "Rcode ?web = RcodeSuccess"
    by (simp add: reply_def RcodeSuccess_def)
  have srvs: "SRVs (Answer ?web) = [?h1] @ ?gone # [?h2]"
    by (simp add: reply_def srv_rr_def)
  have good: "\<forall>srv \<in> set ([?h1] @ [?h2]).
           Target srv \<noteq> [] \<and>
           (\<forall>w'. fst (resolveTarget sample_lib sample_resolver w' (butlast (Target srv))) =
                    (sample_addr (butlast (Target srv)), None))"
    by (simp add: sample_hosts sample_addr_def)
  have ne: "Target ?gone \<noteq> []" by simp
  have bad: "\<forall>w'. snd (fst (resolveTarget sample_lib sample_resolver w' (butlast (Target ?gone)))) \<noteq> None"
    by (simp add: sample_hosts)
  have n: "length (SRVs ?rrs) = 3" by (simp add: srv_rr_def)
  from one_target_fails[OF web rc srvs good ne bad]
  show ?thesis by (simp add: sample_addr_def sample_strings sample_numbers n)
qed

text \<open>
  Claim C4. \<^verbatim>\<open>resolveTarget\<close> memoizes successes. After a call for a target has
  returned an address with a \<^verbatim>\<open>nil\<close> error, a call for the same target after any
  sequence of further calls on the resolver returns the same address and leaves the
  resolver and the world as they are: the transport is not invoked and the log does not
  grow. Starting from a cache without the target, the first call exchanges exactly one
  message, the A question for the target, and the log after a second call still ends
  with that one message: two resolutions, one A query in total.
\<close>

theorem resolveTarget_memoizes:
  assumes "resolveTarget L s w target = ((ip, None), s1, w1)"
  shows "(\<forall>cs s2 w2. run_calls L cs (s1, w1) = (s2, w2) \<longrightarrow>
            resolveTarget L s2 w2 target = ((ip, None), s2, w2)) \<and>
         (targetCache s target = None \<longrightarrow>
            exchanged w1 = exchanged w @ [(aQuery L target, dnsServer s)] \<and>
            exchanged (snd (snd (resolveTarget L s1 w1 target))) =
              exchanged w @ [(aQuery L target, dnsServer s)])"
proof -
  from resolveTarget_success[OF assms] have stored: "targetCache s1 target = Some ip"
    by simp
  have later: "resolveTarget L s2 w2 target = ((ip, None), s2, w2)"
    if "run_calls L cs (s1, w1) = (s2, w2)" for cs s2 w2
    using run_calls_keeps[OF that stored] by (rule resolveTarget_hit)
  have again: "resolveTarget L s1 w1 target = ((ip, None), s1, w1)"
    using stored by (rule resolveTarget_hit)
  have "exchanged w1 = exchanged w @ [(aQuery L target, dnsServer s)]"
    if "targetCache s target = None"
    using assms that
    by (auto simp: resolveTarget_def Exchange_eq aQuery_def Let_def
             split: sum.splits if_splits option.splits)
  with later again show ?thesis by simp
qed

theorem resolveTarget_memoizes_witness:
  "resolveTarget sample_lib sample_resolver sample_world ''host1.node.dc1.consul'' =
     (([10, 0, 0, 1], None), sample_resolver\<lparr>targetCache := [''host1.node.dc1.consul'' \<mapsto> [10, 0, 0, 1]]\<rparr>,
      \<lparr>net = 1, exchanged = [(aQuery sample_lib ''host1.node.dc1.consul'', ''10.0.0.53:8600'')]\<rparr>) \<and>
   resolveTarget sample_lib
       (sample_resolver\<lparr>targetCache := [''host1.node.dc1.consul'' \<mapsto> [10, 0, 0, 1]]\<rparr>)
       \<lparr>net = 1, exchanged = [(aQuery sample_lib ''host1.node.dc1.consul'', ''10.0.0.53:8600'')]\<rparr>
       ''host1.node.dc1.consul'' =
     (([10, 0, 0, 1], None), sample_resolver\<lparr>targetCache := [''host1.node.dc1.consul'' \<mapsto> [10, 0, 0, 1]]\<rparr>,
      \<lparr>net = 1, exchanged = [(aQuery sample_lib ''host1.node.dc1.consul'', ''10.0.0.53:8600'')]\<rparr>)"
proof -
  have first: "resolveTarget sample_lib sample_resolver sample_world ''host1.node.dc1.consul'' =
     (([10, 0, 0, 1], None), sample_resolver\<lparr>targetCache := [''host1.node.dc1.consul'' \<mapsto> [10, 0, 0, 1]]\<rparr>,
      \<lparr>net = 1, exchanged = [(aQuery sample_lib ''host1.node.dc1.consul'', ''10.0.0.53:8600'')]\<rparr>)"
    by (simp add: resolveTarget_def Exchange_eq sample_defs)
  from resolveTarget_memoizes[OF first]
  have "run_calls sample_lib [] (sample_resolver\<lparr>targetCache := [''host1.node.dc1.consul'' \<mapsto> [10, 0, 0, 1]]\<rparr>,
      \<lparr>net = 1, exchanged = [(aQuery sample_lib ''host1.node.dc1.consul'', ''10.0.0.53:8600'')]\<rparr>) = (s2, w2) \<Longrightarrow>
            resolveTarget sample_lib s2 w2 ''host1.node.dc1.consul'' = (([10, 0, 0, 1], None), s2, w2)"
    for s2 w2
    by blast
  then have "resolveTarget sample_lib
       (sample_resolver\<lparr>targetCache := [''host1.node.dc1.consul'' \<mapsto> [10, 0, 0, 1]]\<rparr>)
       \<lparr>net = 1, exchanged = [(aQuery sample_lib ''host1.node.dc1.consul'', ''10.0.0.53:8600'')]\<rparr>
       ''host1.node.dc1.consul'' =
     (([10, 0, 0, 1], None), sample_resolver\<lparr>targetCache := [''host1.node.dc1.consul'' \<mapsto> [10, 0, 0, 1]]\<rparr>,
      \<lparr>net = 1, exchanged = [(aQuery sample_lib ''host1.node.dc1.consul'', ''10.0.0.53:8600'')]\<rparr>)"
    by simp
  with first show ?thesis by simp
qed

text \<open>
  Claim C5. If the SRV query succeeds and its answer holds no SRV record (it may hold
  records of other types), \<^verbatim>\<open>DiscoverAllServiceInstances\<close> returns the empty list with a
  \<^verbatim>\<open>nil\<close> error, and \<^verbatim>\<open>DiscoverService\<close> on the same input returns the empty ip, the
  empty port and the error "Service lookup: No SRV entry in DNS response".
\<close>

theorem no_SRV_record:
  assumes "fst (client s (srvQuery L s serviceName) (dnsServer s) (net w)) = Inr r"
    and "Rcode r = RcodeSuccess"
    and "SRVs (Answer r) = []"
  shows "fst (DiscoverAllServiceInstances L s w serviceName) = Returns ([], None) \<and>
         fst (DiscoverService L s w serviceName) =
           Returns ('''', '''', Some (Errorf ''Service lookup: No SRV entry in DNS response''))"
proof -
  have "fst (rangeSRV L (Answer r) [] s w1) = Returns ([] @ [])" for w1 :: "'a world"
    using rangeSRV_resolves[where s = s and ?s0.0 = s and L = L and addr = "\<lambda>t. None"
            and rrs = "Answer r" and acc = "[]" and w = w1] assms(3) by simp
  with DiscoverAll_fst[OF assms(1,2)]
  have all: "fst (DiscoverAllServiceInstances L s w serviceName) = Returns ([], None)"
    by simp
  then have "fst (DiscoverService L s w serviceName) =
           Returns ('''', '''', Some (Errorf ''Service lookup: No SRV entry in DNS response''))"
    by (cases "DiscoverAllServiceInstances L s w serviceName") (simp add: DiscoverService_def)
  with all show ?thesis ..
qed

theorem no_SRV_record_witness:
  "fst (DiscoverAllServiceInstances sample_lib sample_resolver sample_world ''idle'') =
     Returns ([], None) \<and>
   fst (DiscoverService sample_lib sample_resolver sample_world ''idle'') =
     Returns ('''', '''', Some (Errorf ''Service lookup: No SRV entry in DNS response''))"
proof -
  have idle: "fst (client sample_resolver (srvQuery sample_lib sample_resolver ''idle'')
                (dnsServer sample_resolver) (net sample_world)) =
                Inr (reply (srvQuery sample_lib sample_resolver ''idle'') 0 [RR_Other 16])"
    by (simp add: sample_defs)
  have rc: "Rcode (reply (srvQuery sample_lib sample_resolver ''idle'') 0 [RR_Other 16]) = RcodeSuccess"
    by (simp add: reply_def RcodeSuccess_def)
  have none: "SRVs (Answer (reply (srvQuery sample_lib sample_resolver ''idle'') 0 [RR_Other 16])) = []"
    by (simp add: reply_def)
  from no_SRV_record[OF idle rc none] show ?thesis .
qed

text \<open>
  Claim C6. If the transport exchange of the SRV question fails with an error \<open>e\<close>,
  \<^verbatim>\<open>DiscoverAllServiceInstances\<close> returns that error with no instances; if the exchange
  succeeds and the response code is not success, it returns the error
  "Service lookup: DNS query did not succeed" with no instances. In both cases the log of
  exchanged messages has grown by the SRV question alone: the question was sent once
  (no retry) and no A question was sent; the resolver is unchanged.
\<close>

theorem DiscoverAll_srv_query_fails:
  "(fst (client s (srvQuery L s serviceName) (dnsServer s) (net w)) = Inl e \<longrightarrow>
      DiscoverAllServiceInstances L s w serviceName =
        (Returns ([], Some e), s,
         \<lparr>net = snd (client s (srvQuery L s serviceName) (dnsServer s) (net w)),
          exchanged = exchanged w @ [(srvQuery L s serviceName, dnsServer s)]\<rparr>)) \<and>
   (fst (client s (srvQuery L s serviceName) (dnsServer s) (net w)) = Inr r \<and>
    Rcode r \<noteq> RcodeSuccess \<longrightarrow>
      DiscoverAllServiceInstances L s w serviceName =
        (Returns ([], Some (Errorf ''Service lookup: DNS query did not succeed'')), s,
         \<lparr>net = snd (client s (srvQuery L s serviceName) (dnsServer s) (net w)),
          exchanged = exchanged w @ [(srvQuery L s serviceName, dnsServer s)]\<rparr>))"
  using DiscoverAll_srv_failed DiscoverAll_srv_refused by blast

theorem DiscoverAll_srv_query_fails_witness:
  "DiscoverAllServiceInstances sample_lib sample_resolver sample_world ''down'' =
     (Returns ([], Some (LibraryError ''i/o timeout'')), sample_resolver,
      \<lparr>net = 1, exchanged = [(srvQuery sample_lib sample_resolver ''down'', ''10.0.0.53:8600'')]\<rparr>) \<and>
   DiscoverAllServiceInstances sample_lib sample_resolver sample_world ''nobody'' =
     (Returns ([], Some (Errorf ''Service lookup: DNS query did not succeed'')), sample_resolver,
      \<lparr>net = 1, exchanged = [(srvQuery sample_lib sample_resolver ''nobody'', ''10.0.0.53:8600'')]\<rparr>)"
proof -
  from DiscoverAll_srv_query_fails[of sample_resolver sample_lib "''down''" sample_world
         "LibraryError ''i/o timeout''" undefined]
  have a: "DiscoverAllServiceInstances sample_lib sample_resolver sample_world ''down'' =
     (Returns ([], Some (LibraryError ''i/o timeout'')), sample_resolver,
      \<lparr>net = 1, exchanged = [(srvQuery sample_lib sample_resolver ''down'', ''10.0.0.53:8600'')]\<rparr>)"
    by (simp add: sample_defs)
  from DiscoverAll_srv_query_fails[of sample_resolver sample_lib "''nobody''" sample_world
         undefined "reply (srvQuery sample_lib sample_resolver ''nobody'') 3 []"]
  have b: "DiscoverAllServiceInstances sample_lib sample_resolver sample_world ''nobody'' =
     (Returns ([], Some (Errorf ''Service lookup: DNS query did not succeed'')), sample_resolver,
      \<lparr>net = 1, exchanged = [(srvQuery sample_lib sample_resolver ''nobody'', ''10.0.0.53:8600'')]\<rparr>)"
    by (simp add: sample_defs)
  from a b show ?thesis by simp
qed

text \<open>
  Claim C7. The cache is a map, so a target has at most one address in it. An entry is
  never overwritten or removed: whatever sequence of calls is made on the resolver, a
  target that has an address in the cache has the same address afterwards. The entry of a
  target is the address of its first successful resolution: when a call for a target
  that is not in the cache returns an address, that address is in the cache after the
  call and after any further calls. Such a call succeeds and stores whenever the
  exchange for the A question is answered with response code success and an A record:
  the address of the first A record of the answer is returned and written to the cache
  under the target, one message is exchanged, and after any further calls the cache
  still holds that address and \<^verbatim>\<open>resolveTarget\<close> returns it without touching the
  resolver or the world. A resolution whose answer has response code success
  and no A record returns the error "Service lookup: No A entry in DNS response" and
  stores nothing, and the next call for the same target sends the A question again.
\<close>

theorem targetCache_first_success_wins:
  "(targetCache s k = Some v \<and> run_calls L cs (s, w) = (s', w') \<longrightarrow>
      targetCache s' k = Some v) \<and>
   (targetCache s target = None \<and> resolveTarget L s w target = ((ip, None), s1, w1) \<and>
    run_calls L cs (s1, w1) = (s2, w2) \<longrightarrow>
      targetCache s1 target = Some ip \<and> targetCache s2 target = Some ip) \<and>
   (targetCache s target = None \<and>
    fst (client s (aQuery L target) (dnsServer s) (net w)) = Inr r \<and>
    Rcode r = RcodeSuccess \<and> (\<forall>a. RR_A a \<notin> set (Answer r)) \<and>
    resolveTarget L s w target = (res, s3, w3) \<longrightarrow>
      res = ([], Some (Errorf ''Service lookup: No A entry in DNS response'')) \<and>
      s3 = s \<and> targetCache s3 target = None \<and>
      exchanged w3 = exchanged w @ [(aQuery L target, dnsServer s)] \<and>
      exchanged (snd (snd (resolveTarget L s3 w3 target))) =
        exchanged w3 @ [(aQuery L target, dnsServer s)]) \<and>
   (targetCache s target = None \<and>
    fst (client s (aQuery L target) (dnsServer s) (net w)) = Inr r \<and>
    Rcode r = RcodeSuccess \<and>
    Answer r = pre @ RR_A a0 # post \<and> (\<forall>a. RR_A a \<notin> set pre) \<and>
    run_calls L cs (snd (resolveTarget L s w target)) = (s4, w4) \<longrightarrow>
      resolveTarget L s w target =
        ((a0, None), s\<lparr>targetCache := (targetCache s)(target \<mapsto> a0)\<rparr>,
         \<lparr>net = snd (client s (aQuery L target) (dnsServer s) (net w)),
          exchanged = exchanged w @ [(aQuery L target, dnsServer s)]\<rparr>) \<and>
      targetCache (fst (snd (resolveTarget L s w target))) target = Some a0 \<and>
      targetCache s4 target = Some a0 \<and>
      resolveTarget L s4 w4 target = ((a0, None), s4, w4))"
proof (intro conjI impI)
  assume "targetCache s k = Some v \<and> run_calls L cs (s, w) = (s', w')"
  then show "targetCache s' k = Some v" using run_calls_keeps by blast
next
  assume a: "targetCache s target = None \<and> resolveTarget L s w target = ((ip, None), s1, w1) \<and>
    run_calls L cs (s1, w1) = (s2, w2)"
  then have "s1 = s\<lparr>targetCache := (targetCache s)(target \<mapsto> ip)\<rparr>"
    using resolveTarget_success by blast
  then show "targetCache s1 target = Some ip" by simp
  with a show "targetCache s2 target = Some ip" using run_calls_keeps by blast
next
  assume a: "targetCache s target = None \<and>
    fst (client s (aQuery L target) (dnsServer s) (net w)) = Inr r \<and>
    Rcode r = RcodeSuccess \<and> (\<forall>a. RR_A a \<notin> set (Answer r)) \<and>
    resolveTarget L s w target = (res, s3, w3)"
  then have eq: "(res, s3, w3) =
           (([], Some (Errorf ''Service lookup: No A entry in DNS response'')), s,
            \<lparr>net = snd (client s (aQuery L target) (dnsServer s) (net w)),
             exchanged = exchanged w @ [(aQuery L target, dnsServer s)]\<rparr>)"
    using resolveTarget_no_A_record[of s target L w r] by simp
  then show "res = ([], Some (Errorf ''Service lookup: No A entry in DNS response''))"
    and s3: "s3 = s" and "exchanged w3 = exchanged w @ [(aQuery L target, dnsServer s)]"
    by simp_all
  from s3 a show "targetCache s3 target = None" by simp
  then show "exchanged (snd (snd (resolveTarget L s3 w3 target))) =
        exchanged w3 @ [(aQuery L target, dnsServer s)]"
    using resolveTarget_miss_log[of s3 target L w3] s3 by simp
next
  assume a: "targetCache s target = None \<and>
    fst (client s (aQuery L target) (dnsServer s) (net w)) = Inr r \<and>
    Rcode r = RcodeSuccess \<and>
    Answer r = pre @ RR_A a0 # post \<and> (\<forall>a. RR_A a \<notin> set pre) \<and>
    run_calls L cs (snd (resolveTarget L s w target)) = (s4, w4)"
  let ?s1 = "s\<lparr>targetCache := (targetCache s)(target \<mapsto> a0)\<rparr>"
  let ?w1 = "\<lparr>net = snd (client s (aQuery L target) (dnsServer s) (net w)),
             exchanged = exchanged w @ [(aQuery L target, dnsServer s)]\<rparr>"
  from a have run: "resolveTarget L s w target = ((a0, None), ?s1, ?w1)"
    using resolveTarget_stores[of s target L w r pre a0 post] by blast
  then show "resolveTarget L s w target = ((a0, None), ?s1, ?w1)" .
  from run show "targetCache (fst (snd (resolveTarget L s w target))) target = Some a0"
    by simp
  have stored: "targetCache ?s1 target = Some a0" by simp
  from a run have "run_calls L cs (?s1, ?w1) = (s4, w4)" by simp
  from run_calls_keeps[OF this stored] show kept: "targetCache s4 target = Some a0" .
  then show "resolveTarget L s4 w4 target = ((a0, None), s4, w4)"
    by (rule resolveTarget_hit)
qed


theorem targetCache_first_success_wins_witness:
  "resolveTarget sample_lib sample_resolver sample_world ''bare.node.dc1.consul'' =
     (([], Some (Errorf ''Service lookup: No A entry in DNS response'')), sample_resolver,
      \<lparr>net = 1, exchanged = [(aQuery sample_lib ''bare.node.dc1.consul'', ''10.0.0.53:8600'')]\<rparr>) \<and>
   exchanged (snd (snd (resolveTarget sample_lib sample_resolver
      \<lparr>net = 1, exchanged = [(aQuery sample_lib ''bare.node.dc1.consul'', ''10.0.0.53:8600'')]\<rparr>
      ''bare.node.dc1.consul''))) =
     [(aQuery sample_lib ''bare.node.dc1.consul'', ''10.0.0.53:8600''),
      (aQuery sample_lib ''bare.node.dc1.consul'', ''10.0.0.53:8600'')] \<and>
   targetCache (fst (run_calls sample_lib [Call_DiscoverService ''api'']
      (sample_resolver\<lparr>targetCache := [''host1.node.dc1.consul'' \<mapsto> [10, 0, 0, 9]]\<rparr>, sample_world)))
      ''host1.node.dc1.consul'' = Some [10, 0, 0, 9] \<and>
   targetCache sample_resolver ''host2.node.dc1.consul'' = None \<and>
   resolveTarget sample_lib sample_resolver sample_world ''host2.node.dc1.consul'' =
     (([10, 0, 0, 2], None),
      sample_resolver\<lparr>targetCache := [''host2.node.dc1.consul'' \<mapsto> [10, 0, 0, 2]]\<rparr>,
      \<lparr>net = 1, exchanged = [(aQuery sample_lib ''host2.node.dc1.consul'', ''10.0.0.53:8600'')]\<rparr>) \<and>
   targetCache (fst (run_calls sample_lib [Call_DiscoverService ''api'']
      (snd (resolveTarget sample_lib sample_resolver sample_world ''host2.node.dc1.consul''))))
      ''host2.node.dc1.consul'' = Some [10, 0, 0, 2]"
proof -
  let ?w1 = "\<lparr>net = 1, exchanged = [(aQuery sample_lib ''bare.node.dc1.consul'', ''10.0.0.53:8600'')]\<rparr> :: nat world"
  let ?s9 = "sample_resolver\<lparr>targetCache := [''host1.node.dc1.consul'' \<mapsto> [10, 0, 0, 9]]\<rparr>"
  have run: "resolveTarget sample_lib sample_resolver sample_world ''bare.node.dc1.consul'' =
     (([], Some (Errorf ''Service lookup: No A entry in DNS response'')), sample_resolver, ?w1)"
    by (simp add: resolveTarget_def Exchange_eq sample_defs)
  have miss: "targetCache sample_resolver ''bare.node.dc1.consul'' = None"
    by (simp add: sample_resolver_def)
  have answer: "fst (client sample_resolver (aQuery sample_lib ''bare.node.dc1.consul'')
                  (dnsServer sample_resolver) (net sample_world)) =
                Inr (reply (aQuery sample_lib ''bare.node.dc1.consul'') 0 [RR_Other 5])"
    by (simp add: sample_defs)
  have rc: "Rcode (reply (aQuery sample_lib ''bare.node.dc1.consul'') 0 [RR_Other 5]) = RcodeSuccess"
    by (simp add: reply_def RcodeSuccess_def)
  have noA: "\<forall>a. RR_A a \<notin> set (Answer (reply (aQuery sample_lib ''bare.node.dc1.consul'') 0 [RR_Other 5]))"
    by (simp add: reply_def)
  have hit: "targetCache ?s9 ''host1.node.dc1.consul'' = Some [10, 0, 0, 9]"
    by simp
  note inst = targetCache_first_success_wins[where s = sample_resolver and L = sample_lib
      and w = sample_world and target = "''bare.node.dc1.consul''"
      and r = "reply (aQuery sample_lib ''bare.node.dc1.consul'') 0 [RR_Other 5]"
      and res = "([], Some (Errorf ''Service lookup: No A entry in DNS response''))"
      and ?s3.0 = sample_resolver and ?w3.0 = ?w1]
  from inst miss answer rc noA run
  have again: "exchanged (snd (snd (resolveTarget sample_lib sample_resolver ?w1 ''bare.node.dc1.consul''))) =
     exchanged ?w1 @ [(aQuery sample_lib ''bare.node.dc1.consul'', dnsServer sample_resolver)]"
    by blast
  have srv: "dnsServer sample_resolver = ''10.0.0.53:8600''"
    by (simp add: sample_resolver_def)
  from targetCache_first_success_wins[where s = ?s9 and L = sample_lib and w = sample_world
      and k = "''host1.node.dc1.consul''" and v = "[10, 0, 0, 9]"
      and cs = "[Call_DiscoverService ''api'']"
      and s' = "fst (run_calls sample_lib [Call_DiscoverService ''api''] (?s9, sample_world))"
      and w' = "snd (run_calls sample_lib [Call_DiscoverService ''api''] (?s9, sample_world))"] hit
  have kept: "targetCache (fst (run_calls sample_lib [Call_DiscoverService ''api''] (?s9, sample_world)))
      ''host1.node.dc1.consul'' = Some [10, 0, 0, 9]"
    by simp
  let ?r2 = "reply (aQuery sample_lib ''host2.node.dc1.consul'') 0 [RR_Other 5, RR_A [10, 0, 0, 2]]"
  let ?after = "run_calls sample_lib [Call_DiscoverService ''api'']
      (snd (resolveTarget sample_lib sample_resolver sample_world ''host2.node.dc1.consul''))"
  have miss2: "targetCache sample_resolver ''host2.node.dc1.consul'' = None"
    by (simp add: sample_resolver_def)
  have answer2: "fst (client sample_resolver (aQuery sample_lib ''host2.node.dc1.consul'')
                  (dnsServer sample_resolver) (net sample_world)) = Inr ?r2"
    by (simp add: sample_defs)
  have net2: "snd (client sample_resolver (aQuery sample_lib ''host2.node.dc1.consul'')
                  (dnsServer sample_resolver) (net sample_world)) = 1"
    by (simp add: sample_defs)
  have rc2: "Rcode ?r2 = RcodeSuccess"
    by (simp add: reply_def RcodeSuccess_def)
  have first2: "Answer ?r2 = [RR_Other 5] @ RR_A [10, 0, 0, 2] # []"
    by (simp add: reply_def)
  have pre2: "\<forall>a. RR_A a \<notin> set [RR_Other 5]" by simp
  have rest2: "?after = (fst ?after, snd ?after)" by simp
  from targetCache_first_success_wins[where s = sample_resolver and L = sample_lib
      and w = sample_world and target = "''host2.node.dc1.consul''" and r = ?r2
      and pre = "[RR_Other 5]" and ?a0.0 = "[10, 0, 0, 2]" and post = "[]"
      and cs = "[Call_DiscoverService ''api'']" and ?s4.0 = "fst ?after" and ?w4.0 = "snd ?after"]
    miss2 answer2 rc2 first2 pre2 rest2
  have stored: "resolveTarget sample_lib sample_resolver sample_world ''host2.node.dc1.consul'' =
        (([10, 0, 0, 2], None),
         sample_resolver\<lparr>targetCache :=
           (targetCache sample_resolver)(''host2.node.dc1.consul'' \<mapsto> [10, 0, 0, 2])\<rparr>,
         \<lparr>net = snd (client sample_resolver (aQuery sample_lib ''host2.node.dc1.consul'')
                  (dnsServer sample_resolver) (net sample_world)),
          exchanged = exchanged sample_world @
            [(aQuery sample_lib ''host2.node.dc1.consul'', dnsServer sample_resolver)]\<rparr>)"
    and later: "targetCache (fst ?after) ''host2.node.dc1.consul'' = Some [10, 0, 0, 2]"
    by blast+
  have cache0: "targetCache sample_resolver = Map.empty" "exchanged sample_world = []"
    by (simp_all add: sample_resolver_def sample_world_def)
  from stored[unfolded net2] have stored': "resolveTarget sample_lib sample_resolver sample_world ''host2.node.dc1.consul'' =
     (([10, 0, 0, 2], None),
      sample_resolver\<lparr>targetCache := [''host2.node.dc1.consul'' \<mapsto> [10, 0, 0, 2]]\<rparr>,
      \<lparr>net = 1, exchanged = [(aQuery sample_lib ''host2.node.dc1.consul'', ''10.0.0.53:8600'')]\<rparr>)"
    by (simp add: cache0 srv)
  from run again kept srv miss2 stored' later show ?thesis by simp
qed

text \<open>
  Claim C8. Construction of the resolver, case by case. If \<^verbatim>\<open>net.SplitHostPort\<close> rejects
  the input, its error is returned and no lookup is made. If the host is not a literal IP
  address (\<^verbatim>\<open>net.ParseIP\<close> gives \<^verbatim>\<open>nil\<close>), \<^verbatim>\<open>net.LookupHost\<close> is called once for the
  host: its error is returned if it fails, the error "No service discovery host could be
  resolved" if it returns no address, and otherwise the resolver is returned with
  \<open>dnsServer\<close> the first address joined with the port of the input. If the host is a
  literal IP address, no lookup is made and \<open>dnsServer\<close> is the input string as given.
  Every resolver starts with the search suffix \<open>.service.consul\<close> and an empty cache.
\<close>

theorem NewConsulServiceDiscovery_cases:
  "(SplitHostPort L dnsServer0 = Inl e \<longrightarrow>
      NewConsulServiceDiscovery L dnsClient dnsServer0 = ((None, Some e), [])) \<and>
   (SplitHostPort L dnsServer0 = Inr (host, port) \<and> ParseIP L host = None \<and>
    LookupHost L host = Inl e \<longrightarrow>
      NewConsulServiceDiscovery L dnsClient dnsServer0 = ((None, Some e), [host])) \<and>
   (SplitHostPort L dnsServer0 = Inr (host, port) \<and> ParseIP L host = None \<and>
    LookupHost L host = Inr [] \<longrightarrow>
      NewConsulServiceDiscovery L dnsClient dnsServer0 =
        ((None, Some (Errorf ''No service discovery host could be resolved'')), [host])) \<and>
   (SplitHostPort L dnsServer0 = Inr (host, port) \<and> ParseIP L host = None \<and>
    LookupHost L host = Inr (a # addrs) \<longrightarrow>
      NewConsulServiceDiscovery L dnsClient dnsServer0 =
        ((Some \<lparr>dnsServer = JoinHostPort L a port, dnsSearch = ''.service.consul'',
                 client = dnsClient, targetCache = Map.empty\<rparr>, None), [host])) \<and>
   (SplitHostPort L dnsServer0 = Inr (host, port) \<and> ParseIP L host = Some ip \<longrightarrow>
      NewConsulServiceDiscovery L dnsClient dnsServer0 =
        ((Some \<lparr>dnsServer = dnsServer0, dnsSearch = ''.service.consul'',
                 client = dnsClient, targetCache = Map.empty\<rparr>, None), []))"
  by (simp add: NewConsulServiceDiscovery_def)

theorem NewConsulServiceDiscovery_cases_witness:
  "NewConsulServiceDiscovery sample_lib sample_client ''consul.local'' =
     ((None, Some (LibraryError ''missing port in address'')), []) \<and>
   NewConsulServiceDiscovery sample_lib sample_client ''nowhere.local:8600'' =
     ((None, Some (LibraryError ''no such host'')), [''nowhere.local'']) \<and>
   NewConsulServiceDiscovery sample_lib sample_client ''empty.local:8600'' =
     ((None, Some (Errorf ''No service discovery host could be resolved'')), [''empty.local'']) \<and>
   NewConsulServiceDiscovery sample_lib sample_client ''consul.local:8600'' =
     ((Some \<lparr>dnsServer = ''10.0.0.7:8600'', dnsSearch = ''.service.consul'',
              client = sample_client, targetCache = Map.empty\<rparr>, None), [''consul.local'']) \<and>
   NewConsulServiceDiscovery sample_lib sample_client ''10.0.0.53:8600'' =
     ((Some \<lparr>dnsServer = ''10.0.0.53:8600'', dnsSearch = ''.service.consul'',
              client = sample_client, targetCache = Map.empty\<rparr>, None), [])"
proof -
  from NewConsulServiceDiscovery_cases[of sample_lib "''consul.local''"
         "LibraryError ''missing port in address''" sample_client]
  have c1: "NewConsulServiceDiscovery sample_lib sample_client ''consul.local'' =
     ((None, Some (LibraryError ''missing port in address'')), [])"
    by (simp add: sample_lib_def)
  from NewConsulServiceDiscovery_cases[of sample_lib "''nowhere.local:8600''"
         "LibraryError ''no such host''" sample_client "''nowhere.local''" "''8600''"]
  have c2: "NewConsulServiceDiscovery sample_lib sample_client ''nowhere.local:8600'' =
     ((None, Some (LibraryError ''no such host'')), [''nowhere.local''])"
    by (simp add: sample_lib_def)
  from NewConsulServiceDiscovery_cases[of sample_lib "''empty.local:8600''"
         undefined sample_client "''empty.local''" "''8600''"]
  have c3: "NewConsulServiceDiscovery sample_lib sample_client ''empty.local:8600'' =
     ((None, Some (Errorf ''No service discovery host could be resolved'')), [''empty.local''])"
    by (simp add: sample_lib_def)
  from NewConsulServiceDiscovery_cases[of sample_lib "''consul.local:8600''"
         undefined sample_client "''consul.local''" "''8600''" "''10.0.0.7''" "[''10.0.0.8'']"]
  have c4: "NewConsulServiceDiscovery sample_lib sample_client ''consul.local:8600'' =
     ((Some \<lparr>dnsServer = ''10.0.0.7:8600'', dnsSearch = ''.service.consul'',
              client = sample_client, targetCache = Map.empty\<rparr>, None), [''consul.local''])"
    by (simp add: sample_lib_def)
  from NewConsulServiceDiscovery_cases[of sample_lib "''10.0.0.53:8600''"
         undefined sample_client "''10.0.0.53''" "''8600''" undefined undefined "[10, 0, 0, 53]"]
  have c5: "NewConsulServiceDiscovery sample_lib sample_client ''10.0.0.53:8600'' =
     ((Some \<lparr>dnsServer = ''10.0.0.53:8600'', dnsSearch = ''.service.consul'',
              client = sample_client, targetCache = Map.empty\<rparr>, None), [])"
    by (simp add: sample_lib_def)
  from c1 c2 c3 c4 c5 show ?thesis by simp
qed

text \<open>
  Claim C9. The target of an SRV record is cut by \<^verbatim>\<open>srv.Target[:len(srv.Target)-1]\<close>
  with no check. After a successful SRV query, if some SRV record of the answer has the
  empty string as its target, \<^verbatim>\<open>DiscoverAllServiceInstances\<close> panics with a slice bound
  out of range. If every SRV target is a non-empty string ending in a dot, the call
  returns; the slice of such a string is the string without its last character, the dot,
  and this is the host name handed to \<^verbatim>\<open>resolveTarget\<close> by the loop.
\<close>

theorem target_slice:
  assumes "fst (client s (srvQuery L s serviceName) (dnsServer s) (net w)) = Inr r"
    and "Rcode r = RcodeSuccess"
  shows "((\<exists>srv \<in> set (SRVs (Answer r)). Target srv = []) \<longrightarrow>
            fst (DiscoverAllServiceInstances L s w serviceName) = Panics SliceBoundsOutOfRange) \<and>
         ((\<forall>srv \<in> set (SRVs (Answer r)). Target srv \<noteq> [] \<and> last (Target srv) = CHR ''.'') \<longrightarrow>
            (\<exists>res. fst (DiscoverAllServiceInstances L s w serviceName) = Returns res)) \<and>
         (\<forall>t. t \<noteq> [] \<and> last t = CHR ''.'' \<longrightarrow>
            slice_to t (int (length t) - 1) = Returns (butlast t) \<and> butlast t @ ''.'' = t) \<and>
         (\<forall>srv rest acc s0 w0. Target srv \<noteq> [] \<longrightarrow>
            rangeSRV L (RR_SRV srv # rest) acc s0 (w0 :: 'a world) =
              (case resolveTarget L s0 w0 (butlast (Target srv)) of
                 ((ip, err), s', w') \<Rightarrow>
                   rangeSRV L rest (if err = None then acc @ [instance_of L ip srv] else acc) s' w'))"
proof (intro conjI impI allI)
  assume "\<exists>srv \<in> set (SRVs (Answer r)). Target srv = []"
  from rangeSRV_panics[OF this, of L "[]" s
     "\<lparr>net = snd (client s (srvQuery L s serviceName) (dnsServer s) (net w)),
       exchanged = exchanged w @ [(srvQuery L s serviceName, dnsServer s)]\<rparr>"]
    DiscoverAll_fst[OF assms]
  show "fst (DiscoverAllServiceInstances L s w serviceName) = Panics SliceBoundsOutOfRange"
    by simp
next
  assume "\<forall>srv \<in> set (SRVs (Answer r)). Target srv \<noteq> [] \<and> last (Target srv) = CHR ''.''"
  then have ne: "\<forall>srv \<in> set (SRVs (Answer r)). Target srv \<noteq> []" by simp
  from rangeSRV_returns[OF ne, of L "[]" s
     "\<lparr>net = snd (client s (srvQuery L s serviceName) (dnsServer s) (net w)),
       exchanged = exchanged w @ [(srvQuery L s serviceName, dnsServer s)]\<rparr>"]
  obtain instances where "fst (rangeSRV L (Answer r) [] s
     \<lparr>net = snd (client s (srvQuery L s serviceName) (dnsServer s) (net w)),
       exchanged = exchanged w @ [(srvQuery L s serviceName, dnsServer s)]\<rparr>) = Returns instances"
    by blast
  with DiscoverAll_fst[OF assms]
  show "\<exists>res. fst (DiscoverAllServiceInstances L s w serviceName) = Returns res"
    by simp
next
  fix t :: string
  assume t: "t \<noteq> [] \<and> last t = CHR ''.''"
  then show "slice_to t (int (length t) - 1) = Returns (butlast t)"
    by (simp add: slice_to_butlast)
  from t show "butlast t @ ''.'' = t"
    using append_butlast_last_id[of t] by simp
next
  fix srv :: SRV and rest acc s0 and w0 :: "'a world"
  assume "Target srv \<noteq> []"
  then show "rangeSRV L (RR_SRV srv # rest) acc s0 w0 =
              (case resolveTarget L s0 w0 (butlast (Target srv)) of
                 ((ip, err), s', w') \<Rightarrow>
                   rangeSRV L rest (if err = None then acc @ [instance_of L ip srv] else acc) s' w')"
    by (rule rangeSRV_step)
qed

theorem target_slice_witness:
  "fst (DiscoverAllServiceInstances sample_lib sample_resolver sample_world ''odd'') =
     Panics SliceBoundsOutOfRange \<and>
   slice_to ''host1.node.dc1.consul.'' (int (length ''host1.node.dc1.consul.'') - 1) =
     Returns ''host1.node.dc1.consul'' \<and>
   (\<exists>res. fst (DiscoverAllServiceInstances sample_lib sample_resolver sample_world ''api'') =
      Returns res)"
proof -
  let ?odd = "reply (srvQuery sample_lib sample_resolver ''odd'') 0
                [srv_rr ''host1.node.dc1.consul.'' 8080, srv_rr [] 80]"
  let ?api = "reply (srvQuery sample_lib sample_resolver ''api'') 0
                [srv_rr ''host1.node.dc1.consul.'' 8080, srv_rr ''host2.node.dc1.consul.'' 8081]"
  have odd: "fst (client sample_resolver (srvQuery sample_lib sample_resolver ''odd'')
                (dnsServer sample_resolver) (net sample_world)) = Inr ?odd"
    by (simp add: sample_defs)
  have api: "fst (client sample_resolver (srvQuery sample_lib sample_resolver ''api'')
                (dnsServer sample_resolver) (net sample_world)) = Inr ?api"
    by (simp add: sample_defs)
  have rc: "Rcode ?odd = RcodeSuccess" "Rcode ?api = RcodeSuccess"
    by (simp_all add: reply_def RcodeSuccess_def)
  have empty: "\<exists>srv \<in> set (SRVs (Answer ?odd)). Target srv = []"
    by (simp add: reply_def srv_rr_def)
  have dotted: "\<forall>srv \<in> set (SRVs (Answer ?api)). Target srv \<noteq> [] \<and> last (Target srv) = CHR ''.''"
    by (simp add: reply_def srv_rr_def)
  from target_slice[OF odd rc(1)] empty
  have a: "fst (DiscoverAllServiceInstances sample_lib sample_resolver sample_world ''odd'') =
     Panics SliceBoundsOutOfRange" by blast
  from target_slice[OF api rc(2)] dotted
  have b: "\<exists>res. fst (DiscoverAllServiceInstances sample_lib sample_resolver sample_world ''api'') =
      Returns res" by blast
  have "''host1.node.dc1.consul.'' \<noteq> [] \<and> last ''host1.node.dc1.consul.'' = CHR ''.''" by simp
  with target_slice[OF api rc(2)]
  have "slice_to ''host1.node.dc1.consul.'' (int (length ''host1.node.dc1.consul.'') - 1) =
     Returns (butlast ''host1.node.dc1.consul.'')" by blast
  then have c: "slice_to ''host1.node.dc1.consul.'' (int (length ''host1.node.dc1.consul.'') - 1) =
     Returns ''host1.node.dc1.consul''" by simp
  from a b c show ?thesis by simp
qed

text \<open>
  Claim C10. An error leaves the cache as it was: when
  \<^verbatim>\<open>DiscoverAllServiceInstances\<close> returns a non-nil error, and when \<^verbatim>\<open>resolveTarget\<close>
  returns a non-nil error, the resolver after the call is the resolver before it, and so
  is its target address cache.
\<close>

theorem cache_untouched_on_error:
  "(DiscoverAllServiceInstances L s w serviceName = (Returns (instances, Some e), s', w') \<longrightarrow>
      s' = s \<and> targetCache s' = targetCache s) \<and>
   (resolveTarget L s w target = ((ip, Some e'), s'', w'') \<longrightarrow>
      s'' = s \<and> targetCache s'' = targetCache s)"
proof (intro conjI impI)
  assume a: "DiscoverAllServiceInstances L s w serviceName = (Returns (instances, Some e), s', w')"
  show "s' = s"
  proof (cases "fst (client s (srvQuery L s serviceName) (dnsServer s) (net w))")
    case (Inl e0)
    from DiscoverAll_srv_failed[OF Inl] a show ?thesis by simp
  next
    case (Inr r)
    show ?thesis
    proof (cases "Rcode r = RcodeSuccess")
      case True
      from DiscoverAll_srv_answered[OF Inr True] a have False
        by (auto split: prod.splits outcome.splits)
      then show ?thesis ..
    next
      case False
      from DiscoverAll_srv_refused[OF Inr False] a show ?thesis by simp
    qed
  qed
  then show "targetCache s' = targetCache s" by simp
next
  assume b: "resolveTarget L s w target = ((ip, Some e'), s'', w'')"
  from resolveTarget_error[OF b] show "s'' = s" by simp
  then show "targetCache s'' = targetCache s" by simp
qed

theorem cache_untouched_on_error_witness:
  "DiscoverAllServiceInstances sample_lib sample_resolver sample_world ''nobody'' =
     (Returns ([], Some (Errorf ''Service lookup: DNS query did not succeed'')), sample_resolver,
      \<lparr>net = 1, exchanged = [(srvQuery sample_lib sample_resolver ''nobody'', ''10.0.0.53:8600'')]\<rparr>) \<and>
   resolveTarget sample_lib sample_resolver sample_world ''gone.node.dc1.consul'' =
     (([], Some (Errorf ''Service lookup: Target DNS query did not succeed'')), sample_resolver,
      \<lparr>net = 1, exchanged = [(aQuery sample_lib ''gone.node.dc1.consul'', ''10.0.0.53:8600'')]\<rparr>) \<and>
   targetCache sample_resolver = Map.empty"
proof -
  have a: "DiscoverAllServiceInstances sample_lib sample_resolver sample_world ''nobody'' =
     (Returns ([], Some (Errorf ''Service lookup: DNS query did not succeed'')), sample_resolver,
      \<lparr>net = 1, exchanged = [(srvQuery sample_lib sample_resolver ''nobody'', ''10.0.0.53:8600'')]\<rparr>)"
    by (simp add: DiscoverAllServiceInstances_def Exchange_eq sample_defs)
  have b: "resolveTarget sample_lib sample_resolver sample_world ''gone.node.dc1.consul'' =
     (([], Some (Errorf ''Service lookup: Target DNS query did not succeed'')), sample_resolver,
      \<lparr>net = 1, exchanged = [(aQuery sample_lib ''gone.node.dc1.consul'', ''10.0.0.53:8600'')]\<rparr>)"
    by (simp add: resolveTarget_def Exchange_eq sample_defs)
  have c: "targetCache sample_resolver = Map.empty" by (simp add: sample_resolver_def)
  from cache_untouched_on_error[of sample_lib sample_resolver sample_world "''nobody''" "[]"
        "Errorf ''Service lookup: DNS query did not succeed''" sample_resolver
        "\<lparr>net = 1, exchanged = [(srvQuery sample_lib sample_resolver ''nobody'', ''10.0.0.53:8600'')]\<rparr>"
        "''gone.node.dc1.consul''" "[]" "Errorf ''Service lookup: Target DNS query did not succeed''"
        sample_resolver
        "\<lparr>net = 1, exchanged = [(aQuery sample_lib ''gone.node.dc1.consul'', ''10.0.0.53:8600'')]\<rparr>"]
    a b c
  show ?thesis by simp
qed

end
